theory Spec2Isabelle
  imports Complex_Main
begin

section \<open>Values shared by both programs\<close>

text \<open>
  Python text is modelled as \<open>string\<close>, each \<open>char\<close> standing for one code point
  below 256. Values produced by \<^verbatim>\<open>json.loads\<close>, \<^verbatim>\<open>response.json()\<close> and
  \<^verbatim>\<open>request.get_json()\<close> are \<open>json\<close>: \<open>JNull\<close> is Python's \<^verbatim>\<open>None\<close>, a
  \<^verbatim>\<open>dict\<close> is an association list read with \<open>map_of\<close>. A Python float is a
  rational, an infinity or a NaN; only its being zero or not is ever inspected.
\<close>

datatype pyfloat = Finite rat | Infinity bool | NaN

datatype json =
    JNull
  | JBool bool
  | JInt int
  | JFloat pyfloat
  | JString string
  | JArray "json list"
  | JObject "(string \<times> json) list"

text \<open>
  Exceptions are values. Only the distinction the handlers of \<^verbatim>\<open>process_message\<close>
  make is kept in the class (\<^verbatim>\<open>except (json.JSONDecodeError, KeyError)\<close> against
  \<^verbatim>\<open>except Exception\<close>); \<open>exn_msg\<close> is \<^verbatim>\<open>str(e)\<close>.
\<close>

datatype exn_class =
  JSONDecodeError | KeyError | AttributeError | TypeError | HTTPError | OtherException

datatype exn = Exn (exn_class: exn_class) (exn_msg: string)

definition quoted :: "string \<Rightarrow> string" where
  "quoted s = [CHR 0x27] @ s @ [CHR 0x27]"

fun type_name :: "json \<Rightarrow> string" where
  "type_name JNull = ''NoneType''"
| "type_name (JBool b) = ''bool''"
| "type_name (JInt i) = ''int''"
| "type_name (JFloat f) = ''float''"
| "type_name (JString s) = ''str''"
| "type_name (JArray xs) = ''list''"
| "type_name (JObject kvs) = ''dict''"

definition no_attribute :: "json \<Rightarrow> string \<Rightarrow> exn" where
  "no_attribute v a =
     Exn AttributeError (quoted (type_name v) @ '' object has no attribute '' @ quoted a)"

text \<open>Truth value of a Python object, as \<^verbatim>\<open>if x\<close> and \<^verbatim>\<open>not x\<close> test it.\<close>

fun truthy :: "json \<Rightarrow> bool" where
  "truthy JNull = False"
| "truthy (JBool b) = b"
| "truthy (JInt i) = (i \<noteq> 0)"
| "truthy (JFloat f) = (f \<noteq> Finite 0)"
| "truthy (JString s) = (s \<noteq> [])"
| "truthy (JArray xs) = (xs \<noteq> [])"
| "truthy (JObject kvs) = (kvs \<noteq> [])"

text \<open>\<^verbatim>\<open>d.get(key, default)\<close>: only a dict has the method.\<close>

definition dict_get :: "json \<Rightarrow> string \<Rightarrow> json \<Rightarrow> exn + json" where
  "dict_get d k dflt =
     (case d of
        JObject kvs \<Rightarrow> Inr (case map_of kvs k of None \<Rightarrow> dflt | Some v \<Rightarrow> v)
      | _ \<Rightarrow> Inl (no_attribute d ''get''))"

text \<open>
  \<^verbatim>\<open>d[key]\<close> with a string key: \<^verbatim>\<open>KeyError\<close> on a dict without the key,
  \<^verbatim>\<open>TypeError\<close> on anything that is not a dict (with the messages of CPython 3.11).
\<close>

definition subscript :: "json \<Rightarrow> string \<Rightarrow> exn + json" where
  "subscript d k =
     (case d of
        JObject kvs \<Rightarrow>
          (case map_of kvs k of None \<Rightarrow> Inl (Exn KeyError (quoted k)) | Some v \<Rightarrow> Inr v)
      | JArray xs \<Rightarrow> Inl (Exn TypeError ''list indices must be integers or slices, not str'')
      | JString s \<Rightarrow> Inl (Exn TypeError (''string indices must be integers, not '' @ quoted ''str''))
      | _ \<Rightarrow> Inl (Exn TypeError (quoted (type_name d) @ '' object is not subscriptable'')))"

text \<open>\<^verbatim>\<open>str.isspace\<close> on the code points below 256, and \<^verbatim>\<open>str.strip()\<close>.\<close>

definition isspace :: "char \<Rightarrow> bool" where
  "isspace c = ((of_char c :: nat) \<in> set [9, 10, 11, 12, 13, 28, 29, 30, 31, 32, 133, 160])"

definition strip :: "string \<Rightarrow> string" where
  "strip s = rev (dropWhile isspace (rev (dropWhile isspace s)))"

section \<open>The chatbot (Assistant.py)\<close>

subsection \<open>Turns, requests, events\<close>

record turn =
  role :: string
  content :: string

record claude_request =
  model :: string
  max_tokens :: nat
  system :: string
  messages :: "turn list"

text \<open>
  Everything the program does to the outside is an event of the trace: a request to the
  model, an HTTP request of the Resource Client or of the Token Provider, a line of the
  error log.
\<close>

datatype event =
    ModelCall claude_request
  | HttpGet string "(string \<times> string) list"
  | HttpPost "string option" "(string \<times> string option) list" "string option \<times> string option"
  | LogError string

record response =
  status_code :: nat
  http_error_msg :: string
  body :: "exn + json"

text \<open>
  The outside world and the library functions the source calls are parameters. An answer
  may depend on everything that happened before (the trace), so two equal requests need
  not get equal answers.
  \<^item> \<open>claude\<close>: \<^verbatim>\<open>anthropic_client.messages.create(...).content[0].text\<close>, raising or
    returning text;
  \<^item> \<open>http_get\<close>, \<open>http_post\<close>: \<^verbatim>\<open>requests.get\<close>, \<^verbatim>\<open>requests.post\<close>;
  \<^item> \<open>json_loads\<close>, \<open>json_dumps\<close>: \<^verbatim>\<open>json.loads\<close> and
    \<^verbatim>\<open>json.dumps(_, indent=2)\<close>;
  \<^item> \<open>py_str\<close>: \<^verbatim>\<open>str()\<close> of a number, a list or a dict;
  \<^item> the environment variables read by \<^verbatim>\<open>os.getenv\<close>, absent or a string.
\<close>

record env =
  claude :: "event list \<Rightarrow> claude_request \<Rightarrow> exn + string"
  http_get :: "event list \<Rightarrow> string \<Rightarrow> (string \<times> string) list \<Rightarrow> exn + response"
  http_post ::
    "event list \<Rightarrow> string option \<Rightarrow> (string \<times> string option) list \<Rightarrow>
     string option \<times> string option \<Rightarrow> exn + response"
  json_loads :: "string \<Rightarrow> exn + json"
  json_dumps :: "json \<Rightarrow> string"
  py_str :: "json \<Rightarrow> string"
  username :: "string option"
  password :: "string option"
  client_id :: "string option"
  client_secret :: "string option"
  token_url :: "string option"
  api_url :: "string option"

text \<open>
  The state of one \<^verbatim>\<open>ClaudeChatbot\<close>: its \<^verbatim>\<open>conversation_history\<close>, the token of
  its \<^verbatim>\<open>api_client\<close>, and the trace.
\<close>

record world =
  conversation_history :: "turn list"
  token :: json
  trace :: "event list"

definition emit :: "event \<Rightarrow> world \<Rightarrow> world" where
  "emit ev w = w\<lparr>trace := trace w @ [ev]\<rparr>"

definition append_turn :: "string \<Rightarrow> string \<Rightarrow> world \<Rightarrow> world" where
  "append_turn r c w =
     w\<lparr>conversation_history := conversation_history w @ [\<lparr>role = r, content = c\<rparr>]\<rparr>"

text \<open>A value inside an f-string; an unset environment variable prints as \<^verbatim>\<open>None\<close>.\<close>

definition format_value :: "env \<Rightarrow> json \<Rightarrow> string" where
  "format_value env v =
     (case v of
        JString s \<Rightarrow> s
      | JNull \<Rightarrow> ''None''
      | JBool b \<Rightarrow> (if b then ''True'' else ''False'')
      | _ \<Rightarrow> py_str env v)"

definition format_opt :: "string option \<Rightarrow> string" where
  "format_opt v = (case v of None \<Rightarrow> ''None'' | Some s \<Rightarrow> s)"

definition raise_for_status :: "response \<Rightarrow> exn + unit" where
  "raise_for_status r =
     (if 400 \<le> status_code r \<and> status_code r < 600
      then Inl (Exn HTTPError (http_error_msg r)) else Inr ())"

subsection \<open>Token Provider and Resource Client\<close>

text \<open>
  \<^verbatim>\<open>get_access_token\<close>: one POST, \<^verbatim>\<open>raise_for_status()\<close>, then
  \<^verbatim>\<open>response.json().get("access_token")\<close>. Each failure propagates.
\<close>

definition get_access_token :: "env \<Rightarrow> world \<Rightarrow> (exn + json) \<times> world" where
  "get_access_token env w =
     (let data = [(''grant_type'', Some ''password''),
                  (''username'', username env),
                  (''password'', password env)];
          auth = (client_id env, client_secret env);
          w' = emit (HttpPost (token_url env) data auth) w
      in case http_post env (trace w) (token_url env) data auth of
           Inl e \<Rightarrow> (Inl e, w')
         | Inr r \<Rightarrow>
             (case raise_for_status r of
                Inl e \<Rightarrow> (Inl e, w')
              | Inr _ \<Rightarrow>
                  (case body r of
                     Inl e \<Rightarrow> (Inl e, w')
                   | Inr j \<Rightarrow> (dict_get j ''access_token'' JNull, w'))))"

text \<open>
  The four \<^verbatim>\<open>get_*\<close> functions share their last three lines:
  \<^verbatim>\<open>r = requests.get(url, headers=headers); r.raise_for_status(); return r.json()\<close>.
\<close>

definition authorized_get :: "env \<Rightarrow> json \<Rightarrow> string \<Rightarrow> world \<Rightarrow> (exn + json) \<times> world" where
  "authorized_get env access_token url w =
     (let headers = [(''Authorization'', ''Bearer '' @ format_value env access_token)];
          w' = emit (HttpGet url headers) w
      in case http_get env (trace w) url headers of
           Inl e \<Rightarrow> (Inl e, w')
         | Inr r \<Rightarrow>
             (case raise_for_status r of
                Inl e \<Rightarrow> (Inl e, w')
              | Inr _ \<Rightarrow> (body r, w')))"

definition get_schools :: "env \<Rightarrow> json \<Rightarrow> world \<Rightarrow> (exn + json) \<times> world" where
  "get_schools env access_token w =
     authorized_get env access_token (format_opt (api_url env) @ ''/group/main'') w"

definition get_school_rooms :: "env \<Rightarrow> json \<Rightarrow> json \<Rightarrow> world \<Rightarrow> (exn + json) \<times> world" where
  "get_school_rooms env access_token school_uuid w =
     authorized_get env access_token
       (format_opt (api_url env) @ ''/group/'' @ format_value env school_uuid @ ''/subgroup/3'') w"

definition get_room_sensors :: "env \<Rightarrow> json \<Rightarrow> json \<Rightarrow> world \<Rightarrow> (exn + json) \<times> world" where
  "get_room_sensors env access_token room_uuid w =
     authorized_get env access_token
       (format_opt (api_url env) @ ''/group/'' @ format_value env room_uuid @ ''/resource'') w"

definition get_sensor_latest_value ::
  "env \<Rightarrow> json \<Rightarrow> json \<Rightarrow> world \<Rightarrow> (exn + json) \<times> world" where
  "get_sensor_latest_value env access_token sensor_uuid w =
     authorized_get env access_token
       (format_opt (api_url env) @ ''/resource/'' @ format_value env sensor_uuid @ ''/latest'') w"

text \<open>The methods of \<^verbatim>\<open>ExternalAPIClient\<close> pass \<^verbatim>\<open>self.token\<close>.\<close>

definition fetch_schools :: "env \<Rightarrow> world \<Rightarrow> (exn + json) \<times> world" where
  "fetch_schools env w = get_schools env (token w) w"

definition fetch_rooms :: "env \<Rightarrow> world \<Rightarrow> json \<Rightarrow> (exn + json) \<times> world" where
  "fetch_rooms env w school_uuid = get_school_rooms env (token w) school_uuid w"

definition fetch_sensors :: "env \<Rightarrow> world \<Rightarrow> json \<Rightarrow> (exn + json) \<times> world" where
  "fetch_sensors env w room_uuid = get_room_sensors env (token w) room_uuid w"

definition fetch_sensor_value :: "env \<Rightarrow> world \<Rightarrow> json \<Rightarrow> (exn + json) \<times> world" where
  "fetch_sensor_value env w sensor_uuid = get_sensor_latest_value env (token w) sensor_uuid w"

subsection \<open>The orchestrator: \<^verbatim>\<open>ClaudeChatbot\<close>\<close>

definition join_lines :: "string list \<Rightarrow> string" where
  "join_lines ls = concat (case ls of [] \<Rightarrow> [] | l # rest \<Rightarrow> l # map (\<lambda>x. CHR 0x0A # x) rest)"

definition dq :: string where
  "dq = [CHR 0x22]"

definition intent_system_prompt :: string where
  "intent_system_prompt = join_lines
     [''You are a helpful assistant for a school IoT API.'',
      [],
      ''If the user asks for schools, rooms, sensors, or sensor values, respond with a JSON object in this format:'',
      ''{'',
      ''  '' @ dq @ ''needsAPI'' @ dq @ '': true,'',
      ''  '' @ dq @ ''apiType'' @ dq @ '': '' @ dq @ ''schools|rooms|sensors|values'' @ dq @ '','',
      ''  '' @ dq @ ''params'' @ dq @ '': {'' @ dq @ ''school_uuid'' @ dq @ '': '' @ dq @ ''...'' @ dq
        @ '', '' @ dq @ ''room_uuid'' @ dq @ '': '' @ dq @ ''...'' @ dq
        @ '', '' @ dq @ ''sensor_uuid'' @ dq @ '': '' @ dq @ ''...'' @ dq @ ''}'',
      ''}'',
      [],
      ''If no API is needed, respond normally with helpful text.'']"

definition format_system_prompt :: "env \<Rightarrow> string \<Rightarrow> json \<Rightarrow> string" where
  "format_system_prompt env user_message api_data = join_lines
     [''You are a helpful assistant for a school IoT API.'',
      [],
      ''The user asked: '' @ dq @ user_message @ dq,
      [],
      ''Here is the API data you requested:'',
      json_dumps env api_data,
      [],
      ''Please present this data in a clear, well-formatted way. Use tables, lists, and markdown formatting to make it easy to read. Do NOT return JSON - return formatted text.'']"

definition error_reply :: string where
  "error_reply = ''Sorry, there was an error processing your request.''"

text \<open>
  \<^verbatim>\<open>self.conversation_history[-4:] if len(self.conversation_history) > 4 else
  self.conversation_history\<close>
\<close>

definition recent_history :: "turn list \<Rightarrow> turn list" where
  "recent_history h = (if length h > 4 then drop (length h - 4) h else h)"

definition build_request :: "env \<Rightarrow> turn list \<Rightarrow> string \<Rightarrow> json \<Rightarrow> claude_request" where
  "build_request env h user_message api_data =
     \<lparr>model = ''claude-sonnet-4-20250514'',
      max_tokens = 1500,
      system = (if api_data = JNull then intent_system_prompt
                else format_system_prompt env user_message api_data),
      messages = recent_history h @ [\<lparr>role = ''user'', content = user_message\<rparr>]\<rparr>"

text \<open>
  \<^verbatim>\<open>call_claude_api(user_message, api_data=None)\<close>. The whole body is inside
  \<^verbatim>\<open>try ... except Exception\<close>, so the function always returns text. Building the
  request raises nothing (\<^verbatim>\<open>json.dumps\<close> is given values that came out of a JSON
  parser or the error objects of \<^verbatim>\<open>fetch_external_data\<close>); what can raise is the
  call of the model and the reading of its answer.
\<close>

definition call_claude_api :: "env \<Rightarrow> world \<Rightarrow> string \<Rightarrow> json \<Rightarrow> string \<times> world" where
  "call_claude_api env w user_message api_data =
     (let req = build_request env (conversation_history w) user_message api_data;
          w' = emit (ModelCall req) w
      in case claude env (trace w) req of
           Inr text \<Rightarrow> (text, w')
         | Inl e \<Rightarrow> (error_reply, emit (LogError (''Claude API error: '' @ exn_msg e)) w'))"

definition error_object :: "string \<Rightarrow> json" where
  "error_object m = JObject [(''error'', JString m)]"

text \<open>The body of the \<^verbatim>\<open>try\<close> of \<^verbatim>\<open>fetch_external_data\<close>.\<close>

definition fetch_attempt :: "env \<Rightarrow> world \<Rightarrow> json \<Rightarrow> json \<Rightarrow> (exn + json) \<times> world" where
  "fetch_attempt env w api_type params =
     (if api_type = JString ''schools'' then fetch_schools env w
      else if api_type = JString ''rooms'' then
        (case dict_get params ''school_uuid'' JNull of
           Inl e \<Rightarrow> (Inl e, w)
         | Inr school_uuid \<Rightarrow>
             if \<not> truthy school_uuid
             then (Inr (error_object ''School UUID required for fetching rooms''), w)
             else fetch_rooms env w school_uuid)
      else if api_type = JString ''sensors'' then
        (case dict_get params ''room_uuid'' JNull of
           Inl e \<Rightarrow> (Inl e, w)
         | Inr room_uuid \<Rightarrow>
             if \<not> truthy room_uuid
             then (Inr (error_object ''Room UUID required for fetching sensors''), w)
             else fetch_sensors env w room_uuid)
      else if api_type = JString ''values'' then
        (case dict_get params ''sensor_uuid'' JNull of
           Inl e \<Rightarrow> (Inl e, w)
         | Inr sensor_uuid \<Rightarrow>
             if \<not> truthy sensor_uuid
             then (Inr (error_object ''Sensor UUID required for fetching values''), w)
             else fetch_sensor_value env w sensor_uuid)
      else (Inr (error_object (''Unknown API type: '' @ format_value env api_type)), w))"

definition fetch_external_data :: "env \<Rightarrow> world \<Rightarrow> json \<Rightarrow> json \<Rightarrow> json \<times> world" where
  "fetch_external_data env w api_type params =
     (case fetch_attempt env w api_type params of
        (Inr v, w') \<Rightarrow> (v, w')
      | (Inl e, w') \<Rightarrow>
          (error_object (''Failed to fetch '' @ format_value env api_type @ '': '' @ exn_msg e),
           emit (LogError (''API fetch error: '' @ exn_msg e)) w'))"

text \<open>
  The part of the \<^verbatim>\<open>try\<close> of \<^verbatim>\<open>process_message\<close> that decides whether the
  reply is a directive: \<^verbatim>\<open>json.loads(claude_response.strip())\<close>,
  \<^verbatim>\<open>.get("needsAPI")\<close>, \<^verbatim>\<open>["apiType"]\<close>, \<^verbatim>\<open>.get("params", {})\<close>, in this
  order. \<open>Inr None\<close>: no directive, nothing raised.
\<close>

definition parse_directive :: "env \<Rightarrow> string \<Rightarrow> exn + (json \<times> json) option" where
  "parse_directive env claude_response =
     (case json_loads env (strip claude_response) of
        Inl e \<Rightarrow> Inl e
      | Inr parsed_response \<Rightarrow>
          (case dict_get parsed_response ''needsAPI'' JNull of
             Inl e \<Rightarrow> Inl e
           | Inr needs \<Rightarrow>
               if truthy needs then
                 (case subscript parsed_response ''apiType'' of
                    Inl e \<Rightarrow> Inl e
                  | Inr api_type \<Rightarrow>
                      (case dict_get parsed_response ''params'' (JObject []) of
                         Inl e \<Rightarrow> Inl e
                       | Inr params \<Rightarrow> Inr (Some (api_type, params))))
               else Inr None))"

text \<open>The line each of the two handlers of \<^verbatim>\<open>process_message\<close> logs.\<close>

definition handler_log :: "exn \<Rightarrow> string" where
  "handler_log e =
     (if exn_class e = JSONDecodeError \<or> exn_class e = KeyError
      then ''JSON parsing error: '' @ exn_msg e
      else ''API processing error: '' @ exn_msg e)"

definition process_message :: "env \<Rightarrow> world \<Rightarrow> string \<Rightarrow> string \<times> world" where
  "process_message env w user_message =
     (let w1 = append_turn ''user'' user_message w;
          (claude_response, w2) = call_claude_api env w1 user_message JNull
      in case parse_directive env claude_response of
           Inr (Some (api_type, params)) \<Rightarrow>
             (let (api_data, w3) = fetch_external_data env w2 api_type params;
                  (final_response, w4) = call_claude_api env w3 user_message api_data
              in (final_response, append_turn ''assistant'' final_response w4))
         | Inr None \<Rightarrow> (claude_response, append_turn ''assistant'' claude_response w2)
         | Inl e \<Rightarrow>
             (claude_response,
              append_turn ''assistant'' claude_response (emit (LogError (handler_log e)) w2)))"

subsection \<open>The endpoint \<^verbatim>\<open>POST /api/chat\<close>\<close>

text \<open>\<^verbatim>\<open>.strip()\<close> on the value of the message field: only a string has it.\<close>

definition strip_value :: "json \<Rightarrow> exn + string" where
  "strip_value v = (case v of JString s \<Rightarrow> Inr (strip s) | _ \<Rightarrow> Inl (no_attribute v ''strip''))"

definition turn_json :: "turn \<Rightarrow> json" where
  "turn_json t = JObject [(''role'', JString (role t)), (''content'', JString (content t))]"

text \<open>
  \<^verbatim>\<open>chat()\<close>: the argument is what \<^verbatim>\<open>request.get_json()\<close> does, raise or return
  the parsed body; the result is the status and the JSON of the response.
\<close>

definition chat :: "env \<Rightarrow> world \<Rightarrow> exn + json \<Rightarrow> (nat \<times> json) \<times> world" where
  "chat env w request_json =
     (case (case request_json of
              Inl e \<Rightarrow> Inl e
            | Inr data \<Rightarrow>
                (case dict_get data ''message'' (JString []) of
                   Inl e \<Rightarrow> Inl e
                 | Inr m \<Rightarrow> strip_value m)) of
        Inl e \<Rightarrow>
          ((500, error_object ''Internal error''),
           emit (LogError (''Chat error: '' @ exn_msg e)) w)
      | Inr user_message \<Rightarrow>
          if user_message = [] then ((400, error_object ''Message required''), w)
          else
            (let (reply, w') = process_message env w user_message
             in ((200, JObject [(''response'', JString reply),
                                (''conversation'',
                                 JArray (map turn_json (conversation_history w')))]),
                 w')))"

text \<open>What a trace holds.\<close>

fun is_http :: "event \<Rightarrow> bool" where
  "is_http (HttpGet u h) = True"
| "is_http (HttpPost u d a) = True"
| "is_http (ModelCall r) = False"
| "is_http (LogError s) = False"

fun is_log :: "event \<Rightarrow> bool" where
  "is_log (LogError s) = True"
| "is_log (HttpGet u h) = False"
| "is_log (HttpPost u d a) = False"
| "is_log (ModelCall r) = False"

fun model_calls :: "event list \<Rightarrow> claude_request list" where
  "model_calls [] = []"
| "model_calls (ModelCall r # evs) = r # model_calls evs"
| "model_calls (HttpGet u h # evs) = model_calls evs"
| "model_calls (HttpPost u d a # evs) = model_calls evs"
| "model_calls (LogError s # evs) = model_calls evs"

definition http_calls :: "event list \<Rightarrow> event list" where
  "http_calls evs = filter is_http evs"

text \<open>
  A parsed reply that cannot be followed as a directive: it is not a dict, or it is a dict
  without \<^verbatim>\<open>needsAPI\<close> or without \<^verbatim>\<open>apiType\<close>. The third key of the
  directive shape, \<^verbatim>\<open>params\<close>, is not among them: the source reads it with
  \<^verbatim>\<open>.get("params", {})\<close>, so a dict that lacks only \<^verbatim>\<open>params\<close> is followed.
\<close>

definition lacks_needsAPI_or_apiType :: "json \<Rightarrow> bool" where
  "lacks_needsAPI_or_apiType v =
     (case v of
        JObject kvs \<Rightarrow> map_of kvs ''needsAPI'' = None \<or> map_of kvs ''apiType'' = None
      | _ \<Rightarrow> True)"

section \<open>The weather script (weatherv2.py)\<close>

text \<open>
  The script prints lines. The rule \<^verbatim>\<open>"\n" + "=" * 40\<close> is \<open>Text\<close>; the line
  \<^verbatim>\<open>f"{city} \<dots> Temperature (\<dots>C)"\<close> (its dash and degree sign are not ASCII) is
  \<open>Title city Temperature\<close>, the humidity line \<open>Title city Humidity\<close>; \<open>Chart c\<close> is
  \<^verbatim>\<open>print(ac.plot(series))\<close> where \<^verbatim>\<open>ac.plot\<close> returned \<open>c\<close>.
\<close>

datatype series_kind = Temperature | Humidity

datatype printed = Text string | Title string series_kind | Chart string

record wenv =
  requests_get :: "string \<Rightarrow> (string \<times> json) list \<Rightarrow> exn + response"
  plot :: "json \<Rightarrow> exn + string"

definition cities :: "(string \<times> pyfloat \<times> pyfloat) list" where
  "cities =
     [(''Berlin'', Finite 52.52, Finite 13.41),
      (''Paris'', Finite 48.85, Finite 2.35),
      (''Rome'', Finite 41.90, Finite 12.49)]"

definition url :: string where
  "url = ''https://api.open-meteo.com/v1/forecast''"

definition query :: "pyfloat \<Rightarrow> pyfloat \<Rightarrow> (string \<times> json) list" where
  "query lat lon =
     [(''latitude'', JFloat lat),
      (''longitude'', JFloat lon),
      (''hourly'', JString ''temperature_2m,relative_humidity_2m''),
      (''forecast_days'', JInt 1),
      (''timezone'', JString ''auto'')]"

text \<open>\<^verbatim>\<open>requests.get(url, params=params).json()\<close>, with no check of the status.\<close>

definition fetch_forecast :: "wenv \<Rightarrow> pyfloat \<Rightarrow> pyfloat \<Rightarrow> exn + json" where
  "fetch_forecast env lat lon =
     (case requests_get env url (query lat lon) of
        Inl e \<Rightarrow> Inl e
      | Inr r \<Rightarrow> body r)"

text \<open>
  \<^verbatim>\<open>x[:24]\<close>: a list or a string is cut to its first 24 items; a dict and a scalar
  raise.
\<close>

definition first24 :: "json \<Rightarrow> exn + json" where
  "first24 v =
     (case v of
        JArray xs \<Rightarrow> Inr (JArray (take 24 xs))
      | JString s \<Rightarrow> Inr (JString (take 24 s))
      | JObject kvs \<Rightarrow> Inl (Exn TypeError (''unhashable type: '' @ quoted ''slice''))
      | _ \<Rightarrow> Inl (Exn TypeError (quoted (type_name v) @ '' object is not subscriptable'')))"

text \<open>\<^verbatim>\<open>data["hourly"][field][:24]\<close>\<close>

definition hourly_series :: "json \<Rightarrow> string \<Rightarrow> exn + json" where
  "hourly_series data field =
     (case subscript data ''hourly'' of
        Inl e \<Rightarrow> Inl e
      | Inr hourly \<Rightarrow>
          (case subscript hourly field of
             Inl e \<Rightarrow> Inl e
           | Inr series \<Rightarrow> first24 series))"

definition separator :: string where
  "separator = CHR 0x0A # replicate 40 CHR ''=''"

text \<open>
  One pass of the loop body, from the output printed so far. What was printed before an
  exception stays printed.
\<close>

definition city_report ::
  "wenv \<Rightarrow> string \<times> pyfloat \<times> pyfloat \<Rightarrow> printed list \<Rightarrow> exn option \<times> printed list" where
  "city_report env c out =
     (case c of (city, lat, lon) \<Rightarrow>
        (case fetch_forecast env lat lon of
           Inl e \<Rightarrow> (Some e, out)
         | Inr data \<Rightarrow>
             (case hourly_series data ''temperature_2m'' of
                Inl e \<Rightarrow> (Some e, out)
              | Inr temps \<Rightarrow>
                  (case hourly_series data ''relative_humidity_2m'' of
                     Inl e \<Rightarrow> (Some e, out)
                   | Inr humidity \<Rightarrow>
                       (let out1 = out @ [Text separator, Title city Temperature]
                        in case plot env temps of
                             Inl e \<Rightarrow> (Some e, out1)
                           | Inr chart_t \<Rightarrow>
                               (let out2 = out1 @ [Chart chart_t, Title city Humidity]
                                in case plot env humidity of
                                     Inl e \<Rightarrow> (Some e, out2)
                                   | Inr chart_h \<Rightarrow> (None, out2 @ [Chart chart_h])))))))"

text \<open>The \<^verbatim>\<open>for\<close> loop over \<^verbatim>\<open>cities.items()\<close>: the first exception ends the script.\<close>

fun run_cities ::
  "wenv \<Rightarrow> (string \<times> pyfloat \<times> pyfloat) list \<Rightarrow> printed list \<Rightarrow> exn option \<times> printed list" where
  "run_cities env [] out = (None, out)"
| "run_cities env (c # cs) out =
     (case city_report env c out of
        (Some e, out') \<Rightarrow> (Some e, out')
      | (None, out') \<Rightarrow> run_cities env cs out')"

definition weather_script :: "wenv \<Rightarrow> exn option \<times> printed list" where
  "weather_script env = run_cities env cities []"

fun charts :: "printed list \<Rightarrow> string list" where
  "charts [] = []"
| "charts (Chart c # ps) = c # charts ps"
| "charts (Text s # ps) = charts ps"
| "charts (Title n k # ps) = charts ps"

text \<open>
  The hypothesis "the response for this city holds at least 24 hourly temperature and
  humidity values" (\<open>ts\<close> and \<open>hs\<close>), both of which \<^verbatim>\<open>ac.plot\<close> can draw once cut
  (\<open>ct\<close> and \<open>ch\<close>).
\<close>

definition serves ::
  "wenv \<Rightarrow> string \<times> pyfloat \<times> pyfloat \<Rightarrow> json list \<Rightarrow> json list \<Rightarrow> string \<Rightarrow> string \<Rightarrow> bool" where
  "serves env c ts hs ct ch =
     (case fetch_forecast env (fst (snd c)) (snd (snd c)) of
        Inl e \<Rightarrow> False
      | Inr data \<Rightarrow>
          (case subscript data ''hourly'' of
             Inl e \<Rightarrow> False
           | Inr hourly \<Rightarrow>
               subscript hourly ''temperature_2m'' = Inr (JArray ts) \<and>
               subscript hourly ''relative_humidity_2m'' = Inr (JArray hs) \<and>
               24 \<le> length ts \<and> 24 \<le> length hs \<and>
               plot env (JArray (take 24 ts)) = Inr ct \<and>
               plot env (JArray (take 24 hs)) = Inr ch))"

section \<open>Concrete environments\<close>

text \<open>
  A scripted outside world, to run the model on concrete inputs: the model gives the
  \<open>n\<close>-th reply of a list to its \<open>n\<close>-th request, every HTTP request gets the same
  answer, and \<^verbatim>\<open>json.loads\<close> knows the texts of a table and rejects every other text.
\<close>

definition decode_error :: exn where
  "decode_error = Exn JSONDecodeError ''Expecting value: line 1 column 1 (char 0)''"

definition scripted :: "(exn + string) list \<Rightarrow> (exn + response) \<Rightarrow> (string \<times> json) list \<Rightarrow> env" where
  "scripted replies answer table =
     \<lparr>claude = (\<lambda>tr req. case drop (length (model_calls tr)) replies of
                            [] \<Rightarrow> Inl (Exn OtherException ''Connection error.'')
                          | r # rs \<Rightarrow> r),
      http_get = (\<lambda>tr u hs. answer),
      http_post = (\<lambda>tr u d a. answer),
      json_loads = (\<lambda>s. case map_of table s of None \<Rightarrow> Inl decode_error | Some v \<Rightarrow> Inr v),
      json_dumps = (\<lambda>v. ''<data>''),
      py_str = (\<lambda>v. ''<value>''),
      username = Some ''user'',
      password = Some ''secret'',
      client_id = Some ''client'',
      client_secret = Some ''client-secret'',
      token_url = Some ''https://auth.example/token'',
      api_url = Some ''https://api.example''\<rparr>"

definition rooms_directive_text :: string where
  "rooms_directive_text =
     ''{'' @ dq @ ''needsAPI'' @ dq @ '': true, '' @ dq @ ''apiType'' @ dq @ '': '' @ dq @ ''rooms'' @ dq
       @ '', '' @ dq @ ''params'' @ dq @ '': {}}''"

definition rooms_directive :: json where
  "rooms_directive =
     JObject [(''needsAPI'', JBool True), (''apiType'', JString ''rooms''), (''params'', JObject [])]"

definition schools_directive_text :: string where
  "schools_directive_text =
     ''{'' @ dq @ ''needsAPI'' @ dq @ '': true, '' @ dq @ ''apiType'' @ dq @ '': '' @ dq @ ''schools'' @ dq
       @ ''}''"

definition schools_directive :: json where
  "schools_directive = JObject [(''needsAPI'', JBool True), (''apiType'', JString ''schools'')]"

definition loads_table :: "(string \<times> json) list" where
  "loads_table =
     [(rooms_directive_text, rooms_directive), (schools_directive_text, schools_directive)]"

definition ok_response :: "json \<Rightarrow> response" where
  "ok_response j = \<lparr>status_code = 200, http_error_msg = [], body = Inr j\<rparr>"

definition fresh_world :: world where
  "fresh_world = \<lparr>conversation_history = [], token = JString ''tok'', trace = []\<rparr>"

definition say :: "string \<Rightarrow> string \<Rightarrow> turn" where
  "say r c = \<lparr>role = r, content = c\<rparr>"

definition four_turn_world :: world where
  "four_turn_world =
     \<lparr>conversation_history =
        [say ''user'' ''q1'', say ''assistant'' ''a1'', say ''user'' ''q2'', say ''assistant'' ''a2''],
      token = JString ''tok'',
      trace = []\<rparr>"

definition rooms_env :: env where
  "rooms_env =
     scripted [Inr rooms_directive_text, Inr ''Which school do you mean?'']
       (Inl decode_error) loads_table"

definition plain_env :: env where
  "plain_env = scripted [Inr ''Hello! How can I help?''] (Inl decode_error) loads_table"

definition refused :: exn where
  "refused = Exn OtherException ''Connection refused''"

definition failing_fetch_env :: env where
  "failing_fetch_env =
     scripted [Inr schools_directive_text, Inr ''The school service is unavailable.'']
       (Inl refused) loads_table"

definition model_down_env :: env where
  "model_down_env = scripted [] (Inl refused) loads_table"

definition format_down_env :: env where
  "format_down_env =
     scripted [Inr schools_directive_text] (Inr (ok_response (JArray []))) loads_table"

text \<open>
  The hypothesis "the body is a JSON object with a string-valued or absent message field",
  on what \<^verbatim>\<open>request.get_json()\<close> did.
\<close>

definition well_formed_body :: "exn + json \<Rightarrow> bool" where
  "well_formed_body request_json =
     (case request_json of
        Inr (JObject kvs) \<Rightarrow>
          (case map_of kvs ''message'' of
             None \<Rightarrow> True
           | Some (JString s) \<Rightarrow> True
           | Some _ \<Rightarrow> False)
      | _ \<Rightarrow> False)"

definition unauthorized :: response where
  "unauthorized =
     \<lparr>status_code = 401,
      http_error_msg = ''401 Client Error: Unauthorized for url: https://auth.example/token'',
      body = Inr (JObject [(''error'', JString ''invalid_grant'')])\<rparr>"

definition rejecting_auth_env :: env where
  "rejecting_auth_env = scripted [] (Inr unauthorized) loads_table"

definition tokenless_auth_env :: env where
  "tokenless_auth_env =
     scripted [] (Inr (ok_response (JObject [(''token_type'', JString ''bearer'')]))) loads_table"

definition schools_env :: env where
  "schools_env =
     scripted [Inr schools_directive_text, Inr ''There are no schools yet.'']
       (Inr (ok_response (JArray []))) loads_table"


text \<open>A status is a success status when it is 2xx.\<close>

definition success_status :: "nat \<Rightarrow> bool" where
  "success_status c = (200 \<le> c \<and> c < 300)"

definition multiple_choices :: response where
  "multiple_choices =
     \<lparr>status_code = 300, http_error_msg = [],
      body = Inr (JObject [(''choices'', JArray [])])\<rparr>"

definition redirecting_auth_env :: env where
  "redirecting_auth_env = scripted [] (Inr multiple_choices) loads_table"

text \<open>
  A mock of the forecast service: 30 temperatures and 25 humidities for each city, and a
  plot that draws one star for each value it is given.
\<close>

definition star_plot :: "json \<Rightarrow> exn + string" where
  "star_plot v =
     (case v of
        JArray xs \<Rightarrow> Inr (replicate (length xs) CHR ''*'')
      | _ \<Rightarrow> Inl (Exn TypeError ''object of this type has no len()''))"

definition forecast_body :: "int \<Rightarrow> json" where
  "forecast_body t =
     JObject [(''hourly'',
       JObject [(''temperature_2m'', JArray (replicate 30 (JInt t))),
                (''relative_humidity_2m'', JArray (replicate 25 (JInt 60)))])]"

definition mock_weather :: wenv where
  "mock_weather =
     \<lparr>requests_get = (\<lambda>u q.
        if u = url \<and> map_of q ''latitude'' = Some (JFloat (Finite 52.52))
          then Inr (ok_response (forecast_body 11))
        else if u = url \<and> map_of q ''latitude'' = Some (JFloat (Finite 48.85))
          then Inr (ok_response (forecast_body 14))
        else Inr (ok_response (forecast_body 19))),
      plot = star_plot\<rparr>"


section \<open>Properties of the chatbot\<close>

subsection \<open>What each operation leaves alone\<close>

lemma strip_Nil: "strip [] = []"
  by (simp add: strip_def)

lemma model_calls_append: "model_calls (xs @ ys) = model_calls xs @ model_calls ys"
  by (induction xs rule: model_calls.induct) simp_all

lemma call_claude_api_history:
  "conversation_history (snd (call_claude_api env w u d)) = conversation_history w"
  by (simp add: call_claude_api_def emit_def Let_def split: sum.splits)

lemma call_claude_api_http:
  "http_calls (trace (snd (call_claude_api env w u d))) = http_calls (trace w)"
  by (simp add: call_claude_api_def emit_def http_calls_def Let_def split: sum.splits)

lemma call_claude_api_model_calls:
  "model_calls (trace (snd (call_claude_api env w u d))) =
     model_calls (trace w) @ [build_request env (conversation_history w) u d]"
  by (simp add: call_claude_api_def emit_def model_calls_append Let_def split: sum.splits)

lemma authorized_get_history:
  "conversation_history (snd (authorized_get env t u w)) = conversation_history w"
  by (simp add: authorized_get_def emit_def Let_def split: sum.splits)

lemma authorized_get_model_calls:
  "model_calls (trace (snd (authorized_get env t u w))) = model_calls (trace w)"
  by (simp add: authorized_get_def emit_def model_calls_append Let_def split: sum.splits)

lemmas resource_client_defs =
  fetch_schools_def fetch_rooms_def fetch_sensors_def fetch_sensor_value_def
  get_schools_def get_school_rooms_def get_room_sensors_def get_sensor_latest_value_def

lemma fetch_attempt_history:
  "conversation_history (snd (fetch_attempt env w a p)) = conversation_history w"
  by (simp add: fetch_attempt_def resource_client_defs authorized_get_history split: sum.splits)

lemma fetch_attempt_model_calls:
  "model_calls (trace (snd (fetch_attempt env w a p))) = model_calls (trace w)"
  by (simp add: fetch_attempt_def resource_client_defs authorized_get_model_calls
      split: sum.splits)

lemma fetch_external_data_history:
  "conversation_history (snd (fetch_external_data env w a p)) = conversation_history w"
proof (cases "fetch_attempt env w a p")
  case (Pair r w')
  with fetch_attempt_history [of env w a p] show ?thesis
    by (simp add: fetch_external_data_def emit_def split: sum.splits)
qed

lemma fetch_external_data_model_calls:
  "model_calls (trace (snd (fetch_external_data env w a p))) = model_calls (trace w)"
proof (cases "fetch_attempt env w a p")
  case (Pair r w')
  with fetch_attempt_model_calls [of env w a p] show ?thesis
    by (simp add: fetch_external_data_def emit_def model_calls_append split: sum.splits)
qed

lemma authorized_get_http:
  "length (http_calls (trace (snd (authorized_get env t u w)))) = length (http_calls (trace w)) + 1"
  by (simp add: authorized_get_def emit_def http_calls_def Let_def split: sum.splits)

lemma fetch_attempt_http:
  "length (http_calls (trace (snd (fetch_attempt env w a p)))) \<le> length (http_calls (trace w)) + 1"
  by (simp add: fetch_attempt_def resource_client_defs authorized_get_http split: sum.splits)

lemma fetch_external_data_http:
  "length (http_calls (trace (snd (fetch_external_data env w a p)))) \<le>
     length (http_calls (trace w)) + 1"
proof (cases "fetch_attempt env w a p")
  case (Pair r w')
  with fetch_attempt_http [of env w a p] show ?thesis
    by (simp add: fetch_external_data_def emit_def http_calls_def split: sum.splits)
qed

subsection \<open>One user turn, one assistant turn\<close>

text \<open>
  Claim C2. Whatever the model, the parser and the Resource Client do,
  \<^verbatim>\<open>process_message\<close> leaves the earlier turns as they were and appends exactly two:
  the user's message, then one assistant turn holding the text it returns. That text is
  the reply of the second model call when the first reply was followed as a directive, and
  the first reply itself otherwise; the two are never both appended.
\<close>

theorem process_message_one_exchange:
  "conversation_history (snd (process_message env w u)) =
     conversation_history w @
       [\<lparr>role = ''user'', content = u\<rparr>,
        \<lparr>role = ''assistant'', content = fst (process_message env w u)\<rparr>]
   \<and> fst (process_message env w u) =
       (case call_claude_api env (append_turn ''user'' u w) u JNull of
          (r1, w2) \<Rightarrow>
            (case parse_directive env r1 of
               Inr (Some (a, p)) \<Rightarrow>
                 (case fetch_external_data env w2 a p of
                    (d, w3) \<Rightarrow> fst (call_claude_api env w3 u d))
             | Inr None \<Rightarrow> r1
             | Inl e \<Rightarrow> r1))"
proof -
  obtain r1 w2 where c1: "call_claude_api env (append_turn ''user'' u w) u JNull = (r1, w2)"
    by (cases "call_claude_api env (append_turn ''user'' u w) u JNull")
  have h2: "conversation_history w2 = conversation_history w @ [\<lparr>role = ''user'', content = u\<rparr>]"
    using call_claude_api_history [of env "append_turn ''user'' u w" u JNull] c1
    by (simp add: append_turn_def)
  show ?thesis
  proof (cases "parse_directive env r1")
    case (Inl e)
    with c1 h2 show ?thesis
      by (simp add: process_message_def append_turn_def emit_def)
  next
    case (Inr d)
    show ?thesis
    proof (cases d)
      case None
      with Inr c1 h2 show ?thesis
        by (simp add: process_message_def append_turn_def)
    next
      case (Some ap)
      obtain a p where ap: "ap = (a, p)" by (cases ap)
      obtain dat w3 where f: "fetch_external_data env w2 a p = (dat, w3)"
        by (cases "fetch_external_data env w2 a p")
      obtain r2 w4 where c2: "call_claude_api env w3 u dat = (r2, w4)"
        by (cases "call_claude_api env w3 u dat")
      have h3: "conversation_history w3 = conversation_history w2"
        using fetch_external_data_history [of env w2 a p] f by simp
      have h4: "conversation_history w4 = conversation_history w3"
        using call_claude_api_history [of env w3 u dat] c2 by simp
      from Inr Some ap c1 f c2 h2 h3 h4 show ?thesis
        by (simp add: process_message_def append_turn_def)
    qed
  qed
qed

theorem process_message_one_exchange_witness:
  "conversation_history (snd (process_message rooms_env fresh_world ''rooms?'')) =
     [\<lparr>role = ''user'', content = ''rooms?''\<rparr>,
      \<lparr>role = ''assistant'', content = ''Which school do you mean?''\<rparr>]"
proof -
  have "fst (process_message rooms_env fresh_world ''rooms?'') = ''Which school do you mean?''"
    by code_simp
  then show ?thesis
    using process_message_one_exchange [of rooms_env fresh_world "''rooms?''"]
    by (simp add: fresh_world_def)
qed

subsection \<open>The endpoint\<close>

text \<open>
  Claim C5. A POST to \<^verbatim>\<open>/api/chat\<close> whose JSON object has no message, or a message
  that is empty once stripped, is answered with status 400 and a body with an
  \<^verbatim>\<open>error\<close> field, and the chatbot is left exactly as it was: no turn appended,
  nothing sent to the model or to the Resource Client, nothing logged.
\<close>

theorem chat_blank_message_rejected:
  assumes "map_of kvs ''message'' = None \<or>
           (\<exists>s. map_of kvs ''message'' = Some (JString s) \<and> strip s = [])"
  shows "chat env w (Inr (JObject kvs)) = ((400, error_object ''Message required''), w)"
  using assms by (auto simp: chat_def dict_get_def strip_value_def strip_Nil)

theorem chat_blank_message_rejected_witness:
  "strip ''   '' = [] \<and>
   chat plain_env four_turn_world (Inr (JObject [(''message'', JString ''   '')])) =
     ((400, JObject [(''error'', JString ''Message required'')]), four_turn_world)"
proof -
  have s: "strip ''   '' = []" by code_simp
  then show ?thesis
    using chat_blank_message_rejected
      [of "[(''message'', JString ''   '')]" plain_env four_turn_world]
    by (simp add: error_object_def)
qed

subsection \<open>Turns, log lines and the trace\<close>

lemma http_calls_append: "http_calls (xs @ ys) = http_calls xs @ http_calls ys"
  by (simp add: http_calls_def)

lemma append_turn_trace: "trace (append_turn r c w) = trace w"
  by (simp add: append_turn_def)

lemma append_turn_history:
  "conversation_history (append_turn r c w) = conversation_history w @ [\<lparr>role = r, content = c\<rparr>]"
  by (simp add: append_turn_def)

lemma emit_log_trace:
  "http_calls (trace (emit (LogError s) w)) = http_calls (trace w)"
  "model_calls (trace (emit (LogError s) w)) = model_calls (trace w)"
  "conversation_history (emit ev w) = conversation_history w"
  by (simp_all add: emit_def http_calls_def model_calls_append)

lemma parse_directive_rooms:
  assumes "json_loads env (strip r1) = Inr (JObject kvs)"
      and "map_of kvs ''needsAPI'' = Some (JBool True)"
      and "map_of kvs ''apiType'' = Some a"
      and "map_of kvs ''params'' = Some p"
  shows "parse_directive env r1 = Inr (Some (a, p))"
  using assms by (simp add: parse_directive_def dict_get_def subscript_def)

lemma fetch_rooms_without_school:
  "fetch_external_data env w (JString ''rooms'') (JObject []) =
     (error_object ''School UUID required for fetching rooms'', w)"
  by (simp add: fetch_external_data_def fetch_attempt_def dict_get_def)

lemma process_message_with_directive:
  assumes c1: "call_claude_api env (append_turn ''user'' u w) u JNull = (r1, w2)"
      and d: "parse_directive env r1 = Inr (Some (a, p))"
  shows "fst (process_message env w u) =
           fst (call_claude_api env (snd (fetch_external_data env w2 a p)) u
                  (fst (fetch_external_data env w2 a p)))
       \<and> model_calls (trace (snd (process_message env w u))) =
           model_calls (trace w) @
             [build_request env (conversation_history w @ [\<lparr>role = ''user'', content = u\<rparr>]) u JNull,
              build_request env (conversation_history w @ [\<lparr>role = ''user'', content = u\<rparr>]) u
                (fst (fetch_external_data env w2 a p))]
       \<and> length (http_calls (trace (snd (process_message env w u)))) \<le>
           length (http_calls (trace w)) + 1"
proof -
  obtain dat w3 where f: "fetch_external_data env w2 a p = (dat, w3)"
    by (cases "fetch_external_data env w2 a p")
  obtain r2 w4 where c2: "call_claude_api env w3 u dat = (r2, w4)"
    by (cases "call_claude_api env w3 u dat")
  have pm: "process_message env w u = (r2, append_turn ''assistant'' r2 w4)"
    using c1 d f c2 by (simp add: process_message_def)
  have h2: "conversation_history w2 = conversation_history w @ [\<lparr>role = ''user'', content = u\<rparr>]"
    using call_claude_api_history [of env "append_turn ''user'' u w" u JNull] c1
    by (simp add: append_turn_history)
  have h3: "conversation_history w3 = conversation_history w2"
    using fetch_external_data_history [of env w2 a p] f by simp
  have m2: "model_calls (trace w2) =
              model_calls (trace w) @ [build_request env (conversation_history w2) u JNull]"
    using call_claude_api_model_calls [of env "append_turn ''user'' u w" u JNull] c1 h2
    by (simp add: append_turn_trace append_turn_history)
  have m3: "model_calls (trace w3) = model_calls (trace w2)"
    using fetch_external_data_model_calls [of env w2 a p] f by simp
  have m4: "model_calls (trace w4) =
              model_calls (trace w3) @ [build_request env (conversation_history w3) u dat]"
    using call_claude_api_model_calls [of env w3 u dat] c2 by simp
  have t2: "http_calls (trace w2) = http_calls (trace w)"
    using call_claude_api_http [of env "append_turn ''user'' u w" u JNull] c1
    by (simp add: append_turn_trace)
  have t3: "length (http_calls (trace w3)) \<le> length (http_calls (trace w2)) + 1"
    using fetch_external_data_http [of env w2 a p] f by simp
  have t4: "http_calls (trace w4) = http_calls (trace w3)"
    using call_claude_api_http [of env w3 u dat] c2 by simp
  show ?thesis
    using pm f c2 h2 h3 m2 m3 m4 t2 t3 t4 by (simp add: append_turn_trace)
qed

subsection \<open>Rooms without a school\<close>

text \<open>
  Claim C3. When the first reply of the model parses as the object with
  \<^verbatim>\<open>needsAPI\<close> true, \<^verbatim>\<open>apiType\<close> "rooms" and empty \<^verbatim>\<open>params\<close>, the
  Resource Client is not used at all (the HTTP requests of the trace are those from
  before), and the second request to the model is the formatting request built from
  exactly the object \<^verbatim>\<open>{"error": "School UUID required for fetching rooms"}\<close>;
  the text returned is the reply to that request.
\<close>

theorem rooms_without_school_short_circuits:
  assumes c1: "call_claude_api env (append_turn ''user'' u w) u JNull = (r1, w2)"
      and p: "json_loads env (strip r1) = Inr (JObject kvs)"
      and n: "map_of kvs ''needsAPI'' = Some (JBool True)"
      and a: "map_of kvs ''apiType'' = Some (JString ''rooms'')"
      and ps: "map_of kvs ''params'' = Some (JObject [])"
  shows "http_calls (trace (snd (process_message env w u))) = http_calls (trace w)
       \<and> model_calls (trace (snd (process_message env w u))) =
           model_calls (trace w) @
             [build_request env (conversation_history w @ [\<lparr>role = ''user'', content = u\<rparr>]) u JNull,
              build_request env (conversation_history w @ [\<lparr>role = ''user'', content = u\<rparr>]) u
                (JObject [(''error'', JString ''School UUID required for fetching rooms'')])]
       \<and> fst (process_message env w u) =
           fst (call_claude_api env w2 u
                  (JObject [(''error'', JString ''School UUID required for fetching rooms'')]))"
proof -
  let ?d = "error_object ''School UUID required for fetching rooms''"
  have d: "parse_directive env r1 = Inr (Some (JString ''rooms'', JObject []))"
    using p n a ps by (rule parse_directive_rooms)
  obtain r2 w4 where c2: "call_claude_api env w2 u ?d = (r2, w4)"
    by (cases "call_claude_api env w2 u ?d")
  have pm: "process_message env w u = (r2, append_turn ''assistant'' r2 w4)"
    using c1 d c2 by (simp add: process_message_def fetch_rooms_without_school)
  have h2: "conversation_history w2 = conversation_history w @ [\<lparr>role = ''user'', content = u\<rparr>]"
    using call_claude_api_history [of env "append_turn ''user'' u w" u JNull] c1
    by (simp add: append_turn_history)
  have t2: "http_calls (trace w2) = http_calls (trace w)"
    using call_claude_api_http [of env "append_turn ''user'' u w" u JNull] c1
    by (simp add: append_turn_trace)
  have t4: "http_calls (trace w4) = http_calls (trace w2)"
    using call_claude_api_http [of env w2 u ?d] c2 by simp
  have m2: "model_calls (trace w2) =
              model_calls (trace w) @ [build_request env (conversation_history w2) u JNull]"
    using call_claude_api_model_calls [of env "append_turn ''user'' u w" u JNull] c1 h2
    by (simp add: append_turn_trace append_turn_history)
  have m4: "model_calls (trace w4) =
              model_calls (trace w2) @ [build_request env (conversation_history w2) u ?d]"
    using call_claude_api_model_calls [of env w2 u ?d] c2 by simp
  show ?thesis
    using pm c2 t2 t4 m2 m4 h2 by (simp add: append_turn_trace error_object_def)
qed

lemma fst_snd_pair: "fst x = a \<Longrightarrow> x = (a, snd x)"
  by (cases x) simp

theorem rooms_without_school_short_circuits_witness:
  "http_calls (trace (snd (process_message rooms_env fresh_world ''rooms?''))) = []
   \<and> map system (model_calls (trace (snd (process_message rooms_env fresh_world ''rooms?'')))) =
       [intent_system_prompt,
        format_system_prompt rooms_env ''rooms?''
          (JObject [(''error'', JString ''School UUID required for fetching rooms'')])]"
proof -
  have r1: "fst (call_claude_api rooms_env (append_turn ''user'' ''rooms?'' fresh_world) ''rooms?'' JNull)
              = rooms_directive_text"
    by code_simp
  have p: "json_loads rooms_env (strip rooms_directive_text) = Inr (JObject
             [(''needsAPI'', JBool True), (''apiType'', JString ''rooms''), (''params'', JObject [])])"
    by code_simp
  show ?thesis
    using rooms_without_school_short_circuits [OF fst_snd_pair [OF r1] p]
    by (simp add: fresh_world_def http_calls_def build_request_def)
qed

lemma parse_directive_lacking:
  assumes "case json_loads env (strip r1) of Inl e \<Rightarrow> True | Inr v \<Rightarrow> lacks_needsAPI_or_apiType v"
  shows "parse_directive env r1 = Inr None \<or> (\<exists>e. parse_directive env r1 = Inl e)"
proof (cases "json_loads env (strip r1)")
  case (Inl e)
  then show ?thesis by (simp add: parse_directive_def)
next
  case (Inr v)
  with assms have l: "lacks_needsAPI_or_apiType v" by simp
  show ?thesis
  proof (cases v)
    case (JObject kvs)
    with l Inr show ?thesis
      by (auto simp: parse_directive_def lacks_needsAPI_or_apiType_def dict_get_def subscript_def
          split: option.splits)
  qed (use Inr in \<open>simp_all add: parse_directive_def dict_get_def\<close>)
qed

lemma process_message_without_directive:
  assumes c1: "call_claude_api env (append_turn ''user'' u w) u JNull = (r1, w2)"
      and nd: "parse_directive env r1 = Inr None \<or> (\<exists>e. parse_directive env r1 = Inl e)"
  shows "fst (process_message env w u) = r1
       \<and> conversation_history (snd (process_message env w u)) =
           conversation_history w @
             [\<lparr>role = ''user'', content = u\<rparr>, \<lparr>role = ''assistant'', content = r1\<rparr>]
       \<and> http_calls (trace (snd (process_message env w u))) = http_calls (trace w)
       \<and> model_calls (trace (snd (process_message env w u))) =
           model_calls (trace w) @
             [build_request env (conversation_history w @ [\<lparr>role = ''user'', content = u\<rparr>]) u JNull]"
proof -
  have h2: "conversation_history w2 = conversation_history w @ [\<lparr>role = ''user'', content = u\<rparr>]"
    using call_claude_api_history [of env "append_turn ''user'' u w" u JNull] c1
    by (simp add: append_turn_history)
  have t2: "http_calls (trace w2) = http_calls (trace w)"
    using call_claude_api_http [of env "append_turn ''user'' u w" u JNull] c1
    by (simp add: append_turn_trace)
  have m2: "model_calls (trace w2) =
              model_calls (trace w) @ [build_request env (conversation_history w2) u JNull]"
    using call_claude_api_model_calls [of env "append_turn ''user'' u w" u JNull] c1 h2
    by (simp add: append_turn_trace append_turn_history)
  from nd show ?thesis
  proof
    assume "parse_directive env r1 = Inr None"
    with c1 h2 t2 m2 show ?thesis
      by (simp add: process_message_def append_turn_trace append_turn_history)
  next
    assume "\<exists>e. parse_directive env r1 = Inl e"
    then obtain e where "parse_directive env r1 = Inl e" ..
    with c1 h2 t2 m2 show ?thesis
      by (simp add: process_message_def append_turn_trace append_turn_history emit_log_trace)
  qed
qed

subsection \<open>A reply that is no directive\<close>

text \<open>
  A reply that lacks one of the three keys of the directive shape is not always a direct
  answer. The reply \<^verbatim>\<open>{"needsAPI": true, "apiType": "schools"}\<close> has no
  \<^verbatim>\<open>params\<close>; it is followed all the same: one HTTP request, two requests to the
  model, and the text returned is the second reply, not the first.
\<close>

theorem reply_without_params_is_followed:
  "json_loads schools_env (strip schools_directive_text) =
     Inr (JObject [(''needsAPI'', JBool True), (''apiType'', JString ''schools'')])
   \<and> map_of [(''needsAPI'', JBool True), (''apiType'', JString ''schools'')] ''params'' = None
   \<and> fst (call_claude_api schools_env (append_turn ''user'' ''list schools'' fresh_world)
             ''list schools'' JNull) = schools_directive_text
   \<and> fst (process_message schools_env fresh_world ''list schools'') = ''There are no schools yet.''
   \<and> fst (process_message schools_env fresh_world ''list schools'') \<noteq> schools_directive_text
   \<and> length (http_calls (trace (snd (process_message schools_env fresh_world ''list schools'')))) = 1
   \<and> length (model_calls (trace (snd (process_message schools_env fresh_world ''list schools''))))
       = 2"
  by code_simp

text \<open>
  Claim C4, with the keys named. When the first reply of the model is rejected by
  \<^verbatim>\<open>json.loads\<close>, or parses to something that is no dict, or to a dict without
  \<^verbatim>\<open>needsAPI\<close> or without \<^verbatim>\<open>apiType\<close>, it is the answer: the returned text
  and the appended assistant turn are that reply verbatim, after exactly one user turn; no
  HTTP request is made and the model is asked once.
\<close>

theorem non_directive_reply_is_direct_answer:
  assumes c1: "call_claude_api env (append_turn ''user'' u w) u JNull = (r1, w2)"
      and nd: "case json_loads env (strip r1) of Inl e \<Rightarrow> True | Inr v \<Rightarrow> lacks_needsAPI_or_apiType v"
  shows "fst (process_message env w u) = r1
       \<and> conversation_history (snd (process_message env w u)) =
           conversation_history w @
             [\<lparr>role = ''user'', content = u\<rparr>, \<lparr>role = ''assistant'', content = r1\<rparr>]
       \<and> http_calls (trace (snd (process_message env w u))) = http_calls (trace w)
       \<and> model_calls (trace (snd (process_message env w u))) =
           model_calls (trace w) @
             [build_request env (conversation_history w @ [\<lparr>role = ''user'', content = u\<rparr>]) u JNull]"
  using c1 parse_directive_lacking [OF nd] by (rule process_message_without_directive)

theorem non_directive_reply_is_direct_answer_witness:
  "fst (process_message plain_env fresh_world ''hi'') = ''Hello! How can I help?''
   \<and> conversation_history (snd (process_message plain_env fresh_world ''hi'')) =
       [\<lparr>role = ''user'', content = ''hi''\<rparr>,
        \<lparr>role = ''assistant'', content = ''Hello! How can I help?''\<rparr>]
   \<and> http_calls (trace (snd (process_message plain_env fresh_world ''hi''))) = []
   \<and> length (model_calls (trace (snd (process_message plain_env fresh_world ''hi'')))) = 1"
proof -
  have r1: "fst (call_claude_api plain_env (append_turn ''user'' ''hi'' fresh_world) ''hi'' JNull)
              = ''Hello! How can I help?''"
    by code_simp
  have p: "case json_loads plain_env (strip ''Hello! How can I help?'') of
             Inl e \<Rightarrow> True | Inr v \<Rightarrow> lacks_needsAPI_or_apiType v"
    by code_simp
  show ?thesis
    using non_directive_reply_is_direct_answer [OF fst_snd_pair [OF r1] p]
    by (simp add: fresh_world_def http_calls_def)
qed

subsection \<open>A body that carries no message text\<close>

lemma chat_error_path:
  assumes "(case request_json of
              Inl e \<Rightarrow> Inl e
            | Inr data \<Rightarrow>
                (case dict_get data ''message'' (JString []) of
                   Inl e \<Rightarrow> Inl e
                 | Inr m \<Rightarrow> strip_value m)) = Inl e"
  shows "chat env w request_json =
           ((500, error_object ''Internal error''),
            emit (LogError (''Chat error: '' @ exn_msg e)) w)"
  using assms by (simp add: chat_def)

lemma malformed_raises:
  assumes "\<not> well_formed_body request_json"
  shows "\<exists>e. (case request_json of
              Inl e \<Rightarrow> Inl e
            | Inr data \<Rightarrow>
                (case dict_get data ''message'' (JString []) of
                   Inl e \<Rightarrow> Inl e
                 | Inr m \<Rightarrow> strip_value m)) = Inl e"
proof (cases request_json)
  case (Inl e)
  then show ?thesis by simp
next
  case (Inr data)
  show ?thesis
  proof (cases data)
    case (JObject kvs)
    with Inr assms show ?thesis
      by (auto simp: well_formed_body_def dict_get_def strip_value_def
          split: option.splits json.splits)
  qed (use Inr in \<open>simp_all add: dict_get_def\<close>)
qed

text \<open>
  Claim C10. Whenever \<^verbatim>\<open>request.get_json()\<close> raises, or returns something that is
  not an object, or an object whose message is not a string (a number, a boolean, a list,
  an object or null), \<^verbatim>\<open>chat\<close> answers status 500 with the body
  \<^verbatim>\<open>{"error": "Internal error"}\<close>, not 400; the conversation history is unchanged
  and neither the model nor the Resource Client is called.
\<close>

theorem chat_malformed_body_500:
  assumes "\<not> well_formed_body request_json"
  shows "fst (chat env w request_json) = (500, JObject [(''error'', JString ''Internal error'')])
       \<and> conversation_history (snd (chat env w request_json)) = conversation_history w
       \<and> model_calls (trace (snd (chat env w request_json))) = model_calls (trace w)
       \<and> http_calls (trace (snd (chat env w request_json))) = http_calls (trace w)"
proof -
  from malformed_raises [OF assms] obtain e where
    "(case request_json of
        Inl e \<Rightarrow> Inl e
      | Inr data \<Rightarrow>
          (case dict_get data ''message'' (JString []) of
             Inl e \<Rightarrow> Inl e
           | Inr m \<Rightarrow> strip_value m)) = Inl e" ..
  then have "chat env w request_json =
           ((500, error_object ''Internal error''),
            emit (LogError (''Chat error: '' @ exn_msg e)) w)"
    by (rule chat_error_path)
  then show ?thesis
    by (simp add: emit_log_trace error_object_def)
qed

theorem chat_malformed_body_500_witness:
  "\<not> well_formed_body (Inr (JObject [(''message'', JInt 5)])) \<and>
   fst (chat plain_env four_turn_world (Inr (JObject [(''message'', JInt 5)]))) =
     (500, JObject [(''error'', JString ''Internal error'')]) \<and>
   conversation_history (snd (chat plain_env four_turn_world (Inr (JObject [(''message'', JInt 5)]))))
     = conversation_history four_turn_world"
proof -
  have h: "\<not> well_formed_body (Inr (JObject [(''message'', JInt 5)]))"
    by (simp add: well_formed_body_def)
  show ?thesis
    using h chat_malformed_body_500 [OF h, of plain_env four_turn_world] by simp
qed

subsection \<open>Fetching never raises\<close>





subsection \<open>The Token Provider\<close>

text \<open>
  Not every status that is no success makes \<^verbatim>\<open>get_access_token\<close> raise:
  \<^verbatim>\<open>raise_for_status()\<close> lets a final answer with status 300 pass, and with a JSON
  object for a body the function returns (here \<^verbatim>\<open>None\<close>, the body has no
  \<^verbatim>\<open>access_token\<close>).
\<close>

theorem status_300_does_not_raise:
  "\<not> success_status (status_code multiple_choices)
   \<and> http_post redirecting_auth_env (trace fresh_world) (token_url redirecting_auth_env)
        [(''grant_type'', Some ''password''), (''username'', username redirecting_auth_env),
         (''password'', password redirecting_auth_env)]
        (client_id redirecting_auth_env, client_secret redirecting_auth_env) = Inr multiple_choices
   \<and> fst (get_access_token redirecting_auth_env fresh_world) = Inr JNull"
  by code_simp

text \<open>
  Claim C7, with the statuses named. When the token endpoint answers with a status from
  400 to 599 (those on which \<^verbatim>\<open>raise_for_status()\<close> raises),
  \<^verbatim>\<open>get_access_token\<close> fails with that \<^verbatim>\<open>HTTPError\<close>. Any other status raises
  nothing by itself: the result is then decided by the body alone. In particular, when the
  body is a JSON object without \<^verbatim>\<open>access_token\<close>, the function returns \<^verbatim>\<open>None\<close>
  and raises nothing.
\<close>

theorem get_access_token_failures:
  assumes "http_post env (trace w) (token_url env)
             [(''grant_type'', Some ''password''), (''username'', username env),
              (''password'', password env)]
             (client_id env, client_secret env) = Inr r"
  shows "(400 \<le> status_code r \<and> status_code r < 600 \<longrightarrow>
            fst (get_access_token env w) = Inl (Exn HTTPError (http_error_msg r)))
       \<and> (\<not> (400 \<le> status_code r \<and> status_code r < 600) \<and> body r = Inr (JObject kvs) \<and>
            map_of kvs ''access_token'' = None \<longrightarrow>
            fst (get_access_token env w) = Inr JNull)
       \<and> (\<not> (400 \<le> status_code r \<and> status_code r < 600) \<longrightarrow>
            fst (get_access_token env w) =
              (case body r of Inl e \<Rightarrow> Inl e | Inr j \<Rightarrow> dict_get j ''access_token'' JNull))"
  using assms
  by (auto simp: get_access_token_def raise_for_status_def dict_get_def Let_def split: sum.splits)

theorem get_access_token_failures_witness:
  "fst (get_access_token rejecting_auth_env fresh_world) =
     Inl (Exn HTTPError ''401 Client Error: Unauthorized for url: https://auth.example/token'')
   \<and> fst (get_access_token tokenless_auth_env fresh_world) = Inr JNull
   \<and> fst (get_access_token redirecting_auth_env fresh_world) = Inr JNull"
proof -
  have a: "http_post rejecting_auth_env (trace fresh_world) (token_url rejecting_auth_env)
             [(''grant_type'', Some ''password''), (''username'', username rejecting_auth_env),
              (''password'', password rejecting_auth_env)]
             (client_id rejecting_auth_env, client_secret rejecting_auth_env) = Inr unauthorized"
    by (simp add: rejecting_auth_env_def scripted_def)
  have b: "http_post tokenless_auth_env (trace fresh_world) (token_url tokenless_auth_env)
             [(''grant_type'', Some ''password''), (''username'', username tokenless_auth_env),
              (''password'', password tokenless_auth_env)]
             (client_id tokenless_auth_env, client_secret tokenless_auth_env) =
           Inr (ok_response (JObject [(''token_type'', JString ''bearer'')]))"
    by (simp add: tokenless_auth_env_def scripted_def)
  have c: "http_post redirecting_auth_env (trace fresh_world) (token_url redirecting_auth_env)
             [(''grant_type'', Some ''password''), (''username'', username redirecting_auth_env),
              (''password'', password redirecting_auth_env)]
             (client_id redirecting_auth_env, client_secret redirecting_auth_env) =
           Inr multiple_choices"
    by (simp add: redirecting_auth_env_def scripted_def)
  show ?thesis
    using get_access_token_failures [OF a, of "[]"]
      get_access_token_failures [OF b, of "[(''token_type'', JString ''bearer'')]"]
      get_access_token_failures [OF c, of "[(''choices'', JArray [])]"]
    by (simp add: unauthorized_def ok_response_def multiple_choices_def)
qed

subsection \<open>The window sent to the model\<close>

text \<open>
  \<^verbatim>\<open>process_message\<close> appends the user turn before \<^verbatim>\<open>call_claude_api\<close> cuts
  the window, so the window is cut from a history that already ends with the current
  message, and the message is then added once more.
\<close>

lemma intent_request_messages:
  "model_calls (trace (snd (call_claude_api env (append_turn ''user'' u w) u JNull))) =
     model_calls (trace w) @
       [\<lparr>model = ''claude-sonnet-4-20250514'', max_tokens = 1500, system = intent_system_prompt,
         messages = recent_history (conversation_history w @ [\<lparr>role = ''user'', content = u\<rparr>])
                      @ [\<lparr>role = ''user'', content = u\<rparr>]\<rparr>]"
  by (simp add: call_claude_api_model_calls append_turn_trace append_turn_history
      build_request_def)

lemma chat_returns_whole_history:
  assumes "chat env w request_json = ((200, j), w')"
  shows "\<exists>reply. j = JObject [(''response'', JString reply),
                              (''conversation'', JArray (map turn_json (conversation_history w')))]"
  using assms
  by (auto simp: chat_def emit_def error_object_def split: sum.splits if_splits prod.splits)

text \<open>
  Claim C1 asks for the last four prior turns followed by the current message. Run on a
  history of the four turns q1, a1, q2, a2 and the message q3, the one request to the
  model holds a1, q2, a2, q3, q3: only three prior turns, q1 left out, and the current
  message twice.
\<close>

theorem intent_window_at_four_prior_turns:
  "map messages (model_calls (trace (snd (process_message plain_env four_turn_world ''q3'')))) =
     [[say ''assistant'' ''a1'', say ''user'' ''q2'', say ''assistant'' ''a2'',
       say ''user'' ''q3'', say ''user'' ''q3'']]"
  by code_simp

subsection \<open>Exceptions and the fixed error reply\<close>

text \<open>
  Not every exception of the flow ends in the fixed error string. Here the Resource Client
  raises (the connection is refused): the exception is caught and logged by
  \<^verbatim>\<open>fetch_external_data\<close>, the request is made once, and what the user gets is the
  text of the second model call.
\<close>

theorem fetch_failure_is_not_the_error_reply:
  "filter is_log (trace (snd (process_message failing_fetch_env fresh_world ''list schools''))) =
     [LogError ''API fetch error: Connection refused'']
   \<and> fst (process_message failing_fetch_env fresh_world ''list schools'') =
       ''The school service is unavailable.''
   \<and> fst (process_message failing_fetch_env fresh_world ''list schools'') \<noteq> error_reply
   \<and> length (http_calls (trace (snd (process_message failing_fetch_env fresh_world ''list schools''))))
       = 1"
  by code_simp

lemma call_claude_api_failure:
  assumes "claude env (trace w) (build_request env (conversation_history w) u d) = Inl e"
  shows "fst (call_claude_api env w u d) = error_reply"
  using assms by (simp add: call_claude_api_def Let_def)

text \<open>
  Claim C6, with the fixed error string kept for the model calls. When the first model call
  raises, its reply is the fixed error string; \<^verbatim>\<open>json.loads\<close> rejects that string,
  so it is the result, after one request to the model. When the directive path is taken and
  the second model call raises, the result is the fixed error string after exactly two
  requests. And nothing that fails anywhere in the flow is tried again: whatever raises,
  one turn sends the model one request for each phase it reaches and no more, and sends
  the Resource Client at most one HTTP request.
\<close>

theorem failures_handled_without_retry:
  "(claude env (trace w)
      (build_request env (conversation_history w @ [\<lparr>role = ''user'', content = u\<rparr>]) u JNull) = Inl e
    \<and> json_loads env (strip error_reply) = Inl e' \<longrightarrow>
      fst (process_message env w u) = error_reply
      \<and> model_calls (trace (snd (process_message env w u))) =
          model_calls (trace w) @
            [build_request env (conversation_history w @ [\<lparr>role = ''user'', content = u\<rparr>]) u JNull])
   \<and> (call_claude_api env (append_turn ''user'' u w) u JNull = (r1, w2)
      \<and> parse_directive env r1 = Inr (Some (a, p))
      \<and> fetch_external_data env w2 a p = (d, w3)
      \<and> claude env (trace w3) (build_request env (conversation_history w3) u d) = Inl e \<longrightarrow>
      fst (process_message env w u) = error_reply
      \<and> model_calls (trace (snd (process_message env w u))) =
          model_calls (trace w) @
            [build_request env (conversation_history w @ [\<lparr>role = ''user'', content = u\<rparr>]) u JNull,
             build_request env (conversation_history w @ [\<lparr>role = ''user'', content = u\<rparr>]) u d])
   \<and> model_calls (trace (snd (process_message env w u))) =
       model_calls (trace w) @
         (case call_claude_api env (append_turn ''user'' u w) u JNull of
            (x1, v2) \<Rightarrow>
              (case parse_directive env x1 of
                 Inr (Some (b, q)) \<Rightarrow>
                   [build_request env (conversation_history w @ [\<lparr>role = ''user'', content = u\<rparr>])
                      u JNull,
                    build_request env (conversation_history w @ [\<lparr>role = ''user'', content = u\<rparr>])
                      u (fst (fetch_external_data env v2 b q))]
               | Inr None \<Rightarrow>
                   [build_request env (conversation_history w @ [\<lparr>role = ''user'', content = u\<rparr>])
                      u JNull]
               | Inl x \<Rightarrow>
                   [build_request env (conversation_history w @ [\<lparr>role = ''user'', content = u\<rparr>])
                      u JNull]))
   \<and> length (http_calls (trace (snd (process_message env w u)))) \<le>
       length (http_calls (trace w)) + 1"
proof (intro conjI impI)
  assume h: "claude env (trace w)
      (build_request env (conversation_history w @ [\<lparr>role = ''user'', content = u\<rparr>]) u JNull) = Inl e
    \<and> json_loads env (strip error_reply) = Inl e'"
  obtain r1 w2 where c1: "call_claude_api env (append_turn ''user'' u w) u JNull = (r1, w2)"
    by (cases "call_claude_api env (append_turn ''user'' u w) u JNull")
  have "fst (call_claude_api env (append_turn ''user'' u w) u JNull) = error_reply"
    using h by (intro call_claude_api_failure) (simp add: append_turn_trace append_turn_history)
  with c1 have r1: "r1 = error_reply" by simp
  have nd: "parse_directive env r1 = Inr None \<or> (\<exists>e. parse_directive env r1 = Inl e)"
    using h r1 by (simp add: parse_directive_def)
  from process_message_without_directive [OF c1 nd] r1
  show "fst (process_message env w u) = error_reply"
    and "model_calls (trace (snd (process_message env w u))) =
          model_calls (trace w) @
            [build_request env (conversation_history w @ [\<lparr>role = ''user'', content = u\<rparr>]) u JNull]"
    by simp_all
next
  assume h: "call_claude_api env (append_turn ''user'' u w) u JNull = (r1, w2)
      \<and> parse_directive env r1 = Inr (Some (a, p))
      \<and> fetch_external_data env w2 a p = (d, w3)
      \<and> claude env (trace w3) (build_request env (conversation_history w3) u d) = Inl e"
  obtain r2 w4 where c2: "call_claude_api env w3 u d = (r2, w4)"
    by (cases "call_claude_api env w3 u d")
  have r2: "r2 = error_reply"
    using call_claude_api_failure [of env w3 u d e] h c2 by simp
  have pm: "process_message env w u = (r2, append_turn ''assistant'' r2 w4)"
    using h c2 by (simp add: process_message_def)
  have h2: "conversation_history w2 = conversation_history w @ [\<lparr>role = ''user'', content = u\<rparr>]"
    using call_claude_api_history [of env "append_turn ''user'' u w" u JNull] h
    by (simp add: append_turn_history)
  have h3: "conversation_history w3 = conversation_history w2"
    using fetch_external_data_history [of env w2 a p] h by simp
  have m2: "model_calls (trace w2) =
              model_calls (trace w) @ [build_request env (conversation_history w2) u JNull]"
    using call_claude_api_model_calls [of env "append_turn ''user'' u w" u JNull] h h2
    by (simp add: append_turn_trace append_turn_history)
  have m3: "model_calls (trace w3) = model_calls (trace w2)"
    using fetch_external_data_model_calls [of env w2 a p] h by simp
  have m4: "model_calls (trace w4) =
              model_calls (trace w3) @ [build_request env (conversation_history w3) u d]"
    using call_claude_api_model_calls [of env w3 u d] c2 by simp
  show "fst (process_message env w u) = error_reply"
    using pm r2 by simp
  show "model_calls (trace (snd (process_message env w u))) =
          model_calls (trace w) @
            [build_request env (conversation_history w @ [\<lparr>role = ''user'', content = u\<rparr>]) u JNull,
             build_request env (conversation_history w @ [\<lparr>role = ''user'', content = u\<rparr>]) u d]"
    using pm m2 m3 m4 h2 h3 by (simp add: append_turn_trace)
next
  obtain x1 v2 where c1: "call_claude_api env (append_turn ''user'' u w) u JNull = (x1, v2)"
    by (cases "call_claude_api env (append_turn ''user'' u w) u JNull")
  show "model_calls (trace (snd (process_message env w u))) =
       model_calls (trace w) @
         (case call_claude_api env (append_turn ''user'' u w) u JNull of
            (x1, v2) \<Rightarrow>
              (case parse_directive env x1 of
                 Inr (Some (b, q)) \<Rightarrow>
                   [build_request env (conversation_history w @ [\<lparr>role = ''user'', content = u\<rparr>])
                      u JNull,
                    build_request env (conversation_history w @ [\<lparr>role = ''user'', content = u\<rparr>])
                      u (fst (fetch_external_data env v2 b q))]
               | Inr None \<Rightarrow>
                   [build_request env (conversation_history w @ [\<lparr>role = ''user'', content = u\<rparr>])
                      u JNull]
               | Inl x \<Rightarrow>
                   [build_request env (conversation_history w @ [\<lparr>role = ''user'', content = u\<rparr>])
                      u JNull]))"
  proof (cases "parse_directive env x1")
    case (Inl x)
    then have "parse_directive env x1 = Inr None \<or> (\<exists>e. parse_directive env x1 = Inl e)"
      by simp
    from process_message_without_directive [OF c1 this] c1 Inl show ?thesis by simp
  next
    case (Inr o1)
    show ?thesis
    proof (cases o1)
      case None
      with Inr have "parse_directive env x1 = Inr None \<or> (\<exists>e. parse_directive env x1 = Inl e)"
        by simp
      from process_message_without_directive [OF c1 this] c1 Inr None show ?thesis by simp
    next
      case (Some bq)
      obtain b q where bq: "bq = (b, q)" by (cases bq)
      with Inr Some have "parse_directive env x1 = Inr (Some (b, q))" by simp
      from process_message_with_directive [OF c1 this] c1 Inr Some bq show ?thesis by simp
    qed
  qed
  show "length (http_calls (trace (snd (process_message env w u)))) \<le>
       length (http_calls (trace w)) + 1"
  proof (cases "parse_directive env x1")
    case (Inl x)
    then have "parse_directive env x1 = Inr None \<or> (\<exists>e. parse_directive env x1 = Inl e)"
      by simp
    from process_message_without_directive [OF c1 this] show ?thesis by simp
  next
    case (Inr o1)
    show ?thesis
    proof (cases o1)
      case None
      with Inr have "parse_directive env x1 = Inr None \<or> (\<exists>e. parse_directive env x1 = Inl e)"
        by simp
      from process_message_without_directive [OF c1 this] show ?thesis by simp
    next
      case (Some bq)
      obtain b q where bq: "bq = (b, q)" by (cases bq)
      with Inr Some have "parse_directive env x1 = Inr (Some (b, q))" by simp
      from process_message_with_directive [OF c1 this] show ?thesis by simp
    qed
  qed
qed

theorem failures_handled_without_retry_witness:
  "fst (process_message model_down_env fresh_world ''hi'') =
     ''Sorry, there was an error processing your request.''
   \<and> length (model_calls (trace (snd (process_message model_down_env fresh_world ''hi'')))) = 1
   \<and> fst (process_message format_down_env fresh_world ''list schools'') =
       ''Sorry, there was an error processing your request.''
   \<and> length (model_calls (trace (snd (process_message format_down_env fresh_world ''list schools''))))
       = 2
   \<and> length (http_calls (trace (snd (process_message failing_fetch_env fresh_world ''list schools''))))
       \<le> 1"
proof -
  let ?down = "Exn OtherException ''Connection error.''"
  let ?w2 = "snd (call_claude_api format_down_env (append_turn ''user'' ''list schools'' fresh_world)
                    ''list schools'' JNull)"
  let ?w3 = "snd (fetch_external_data format_down_env ?w2 (JString ''schools'') (JObject []))"
  have a1: "claude model_down_env (trace fresh_world)
              (build_request model_down_env
                 (conversation_history fresh_world @ [\<lparr>role = ''user'', content = ''hi''\<rparr>])
                 ''hi'' JNull) = Inl ?down"
    by (simp add: model_down_env_def scripted_def fresh_world_def)
  have a2: "json_loads model_down_env (strip error_reply) = Inl decode_error"
    by code_simp
  have b1: "fst (call_claude_api format_down_env (append_turn ''user'' ''list schools'' fresh_world)
                   ''list schools'' JNull) = schools_directive_text"
    by code_simp
  have b2: "parse_directive format_down_env schools_directive_text =
              Inr (Some (JString ''schools'', JObject []))"
    by code_simp
  have b3: "fst (fetch_external_data format_down_env ?w2 (JString ''schools'') (JObject [])) = JArray []"
    by code_simp
  have b4: "claude format_down_env (trace ?w3)
              (build_request format_down_env (conversation_history ?w3) ''list schools'' (JArray []))
              = Inl ?down"
    by code_simp
  have p1: "fst (process_message model_down_env fresh_world ''hi'') = error_reply
      \<and> model_calls (trace (snd (process_message model_down_env fresh_world ''hi''))) =
          model_calls (trace fresh_world) @
            [build_request model_down_env
               (conversation_history fresh_world @ [\<lparr>role = ''user'', content = ''hi''\<rparr>]) ''hi'' JNull]"
    using failures_handled_without_retry
      [of model_down_env fresh_world "''hi''" ?down decode_error] a1 a2
    by blast
  have p2: "fst (process_message format_down_env fresh_world ''list schools'') = error_reply
      \<and> model_calls (trace (snd (process_message format_down_env fresh_world ''list schools''))) =
          model_calls (trace fresh_world) @
            [build_request format_down_env
               (conversation_history fresh_world @ [\<lparr>role = ''user'', content = ''list schools''\<rparr>])
               ''list schools'' JNull,
             build_request format_down_env
               (conversation_history fresh_world @ [\<lparr>role = ''user'', content = ''list schools''\<rparr>])
               ''list schools'' (JArray [])]"
    using failures_handled_without_retry
      [of format_down_env fresh_world "''list schools''" ?down decode_error
        schools_directive_text ?w2 "JString ''schools''" "JObject []" "JArray []" ?w3]
      fst_snd_pair [OF b1] b2 fst_snd_pair [OF b3] b4
    by blast
  have p3: "length (http_calls (trace (snd (process_message failing_fetch_env fresh_world
                ''list schools'')))) \<le> length (http_calls (trace fresh_world)) + 1"
    using failures_handled_without_retry
      [of failing_fetch_env fresh_world "''list schools''"]
    by blast
  from p1 p2 p3 show ?thesis
    by (simp add: error_reply_def fresh_world_def http_calls_def)
qed

section \<open>Properties of the weather script\<close>

lemma hourly_series_array:
  assumes "subscript data ''hourly'' = Inr hourly"
      and "subscript hourly field = Inr (JArray xs)"
  shows "hourly_series data field = Inr (JArray (take 24 xs))"
  using assms by (simp add: hourly_series_def first24_def)

lemma city_report_serves:
  assumes "serves env (city, lat, lon) ts hs ct ch"
  shows "city_report env (city, lat, lon) out =
           (None, out @ [Text separator, Title city Temperature, Chart ct,
                         Title city Humidity, Chart ch])"
proof -
  from assms obtain data hourly where
    f: "fetch_forecast env lat lon = Inr data" and
    h: "subscript data ''hourly'' = Inr hourly" and
    t: "subscript hourly ''temperature_2m'' = Inr (JArray ts)" and
    r: "subscript hourly ''relative_humidity_2m'' = Inr (JArray hs)" and
    pt: "plot env (JArray (take 24 ts)) = Inr ct" and
    ph: "plot env (JArray (take 24 hs)) = Inr ch"
    by (auto simp: serves_def split: sum.splits)
  have "hourly_series data ''temperature_2m'' = Inr (JArray (take 24 ts))"
    using h t by (rule hourly_series_array)
  moreover have "hourly_series data ''relative_humidity_2m'' = Inr (JArray (take 24 hs))"
    using h r by (rule hourly_series_array)
  ultimately show ?thesis
    using f pt ph by (simp add: city_report_def)
qed

lemma run_cities_serves:
  assumes "list_all (\<lambda>c. serves env c (T (fst c)) (H (fst c)) (CT (fst c)) (CH (fst c))) cs"
  shows "run_cities env cs out =
           (None, out @ concat (map (\<lambda>c. [Text separator, Title (fst c) Temperature,
                                            Chart (CT (fst c)), Title (fst c) Humidity,
                                            Chart (CH (fst c))]) cs))"
  using assms
proof (induction cs arbitrary: out)
  case Nil
  then show ?case by simp
next
  case (Cons c cs)
  obtain city lat lon where c: "c = (city, lat, lon)" by (cases c)
  from Cons.prems c have s: "serves env (city, lat, lon) (T city) (H city) (CT city) (CH city)"
    and rest: "list_all (\<lambda>c. serves env c (T (fst c)) (H (fst c)) (CT (fst c)) (CH (fst c))) cs"
    by simp_all
  show ?case
    using city_report_serves [OF s] Cons.IH [OF rest] c by simp
qed

text \<open>
  Claim C8. When the responses for Berlin, Paris and Rome each hold at least 24 hourly
  temperatures and 24 hourly humidities, the script ends without an exception and prints
  six charts and no more: for Berlin, then Paris, then Rome, the chart of the temperatures
  and then the chart of the humidities, each drawn from the first 24 values of its series.
\<close>

theorem weather_script_six_charts:
  assumes b: "serves env (''Berlin'', Finite 52.52, Finite 13.41) tb hb ctb chb"
      and p: "serves env (''Paris'', Finite 48.85, Finite 2.35) tp hp ctp chp"
      and r: "serves env (''Rome'', Finite 41.90, Finite 12.49) tr hr ctr chr"
  shows "weather_script env =
           (None,
            [Text separator, Title ''Berlin'' Temperature, Chart ctb, Title ''Berlin'' Humidity, Chart chb,
             Text separator, Title ''Paris'' Temperature, Chart ctp, Title ''Paris'' Humidity, Chart chp,
             Text separator, Title ''Rome'' Temperature, Chart ctr, Title ''Rome'' Humidity, Chart chr])
       \<and> charts (snd (weather_script env)) = [ctb, chb, ctp, chp, ctr, chr]
       \<and> plot env (JArray (take 24 tb)) = Inr ctb \<and> plot env (JArray (take 24 hb)) = Inr chb
       \<and> plot env (JArray (take 24 tp)) = Inr ctp \<and> plot env (JArray (take 24 hp)) = Inr chp
       \<and> plot env (JArray (take 24 tr)) = Inr ctr \<and> plot env (JArray (take 24 hr)) = Inr chr"
proof -
  have w: "weather_script env =
           (None,
            [Text separator, Title ''Berlin'' Temperature, Chart ctb, Title ''Berlin'' Humidity, Chart chb,
             Text separator, Title ''Paris'' Temperature, Chart ctp, Title ''Paris'' Humidity, Chart chp,
             Text separator, Title ''Rome'' Temperature, Chart ctr, Title ''Rome'' Humidity, Chart chr])"
    by (simp only: weather_script_def cities_def run_cities.simps city_report_serves [OF b]
        city_report_serves [OF p] city_report_serves [OF r] prod.case option.case
        append.simps)
  have pl: "plot env (JArray (take 24 tb)) = Inr ctb \<and> plot env (JArray (take 24 hb)) = Inr chb
       \<and> plot env (JArray (take 24 tp)) = Inr ctp \<and> plot env (JArray (take 24 hp)) = Inr chp
       \<and> plot env (JArray (take 24 tr)) = Inr ctr \<and> plot env (JArray (take 24 hr)) = Inr chr"
    using b p r by (auto simp: serves_def split: sum.splits)
  from w pl show ?thesis by simp
qed

theorem weather_script_six_charts_witness:
  "charts (snd (weather_script mock_weather)) =
     [replicate 24 CHR ''*'', replicate 24 CHR ''*'', replicate 24 CHR ''*'',
      replicate 24 CHR ''*'', replicate 24 CHR ''*'', replicate 24 CHR ''*'']
   \<and> fst (weather_script mock_weather) = None"
proof -
  have b: "serves mock_weather (''Berlin'', Finite 52.52, Finite 13.41)
             (replicate 30 (JInt 11)) (replicate 25 (JInt 60))
             (replicate 24 CHR ''*'') (replicate 24 CHR ''*'')"
    by code_simp
  have p: "serves mock_weather (''Paris'', Finite 48.85, Finite 2.35)
             (replicate 30 (JInt 14)) (replicate 25 (JInt 60))
             (replicate 24 CHR ''*'') (replicate 24 CHR ''*'')"
    by code_simp
  have r: "serves mock_weather (''Rome'', Finite 41.90, Finite 12.49)
             (replicate 30 (JInt 19)) (replicate 25 (JInt 60))
             (replicate 24 CHR ''*'') (replicate 24 CHR ''*'')"
    by code_simp
  show ?thesis
    using weather_script_six_charts [OF b p r] by simp
qed

end
